theory Spec2Isabelle
  imports Main
begin

section \<open>Generic workflow views of djangoflow.core.views\<close>

text \<open>
  The module \<^verbatim>\<open>djangoflow/core/views.py\<close> wires HTTP verbs to a workflow model. Its
  handlers are modelled here as functions in a state-and-exception monad. The state holds

    \<^item> the persistent store \<open>db\<close>, of an arbitrary type \<open>'db\<close>, and
    \<^item> a \<open>trace\<close>: the calls into collaborators, in the order the handler makes them.

  What the module imports from elsewhere (the helpers, the access mixin, the model
  methods, the URL configuration, the generic views of the framework) is a field of the
  environment record \<open>env\<close>: the theorems hold for every behaviour of these
  collaborators unless a hypothesis says otherwise. The methods of the workflow model
  (\<^verbatim>\<open>initiate_request\<close>, \<^verbatim>\<open>assign_task\<close>, \<^verbatim>\<open>task.initiate\<close>, ...) are
  calls that return: each is recorded in the trace and changes the instance and the store
  as the environment says.

  The handlers are modelled as they are written, from their first statement on: the
  authentication of \<^verbatim>\<open>login_required\<close> and \<^verbatim>\<open>LoginRequiredMixin\<close> belongs to the
  framework and has happened before. A template context lists the entries the handler
  puts into it.
\<close>

subsection \<open>Requests, instances, forms\<close>

type_synonym kwargs = "string \<rightharpoonup> string"
type_synonym querydict = "string \<rightharpoonup> string"

record request =
  user :: string
  POST :: querydict

record activity_instance =
  title :: string
  ident :: string
  is_initial :: bool
  attrs :: "(string \<times> string) list"

text \<open>A model class is its constructor: \<^verbatim>\<open>model(**cleaned_data)\<close>.\<close>

type_synonym model = "(string \<times> string) list \<Rightarrow> activity_instance"

record form =
  is_bound :: bool
  errors :: "(string \<times> string list) list"
  cleaned_data :: "(string \<times> string) list"

text \<open>
  A form class is its validation: from the submitted data (and the instance of a model
  form) to the field errors and the cleaned data. \<open>new_form\<close> is the constructor of the
  framework's forms: a form is bound when it is given data, and only a bound form is
  validated. \<open>is_valid\<close> is the framework's \<^verbatim>\<open>is_bound and not errors\<close>.
\<close>

type_synonym form_class =
  "querydict \<Rightarrow> activity_instance option \<Rightarrow> (string \<times> string list) list \<times> (string \<times> string) list"

definition new_form :: "form_class \<Rightarrow> querydict option \<Rightarrow> activity_instance option \<Rightarrow> form" where
  "new_form fc data inst =
     (case data of
        None \<Rightarrow> \<lparr>is_bound = False, errors = [], cleaned_data = []\<rparr>
      | Some d \<Rightarrow> \<lparr>is_bound = True, errors = fst (fc d inst), cleaned_data = snd (fc d inst)\<rparr>)"

definition is_valid :: "form \<Rightarrow> bool" where
  "is_valid f = (is_bound f \<and> errors f = [])"

subsection \<open>Responses, errors, events\<close>

datatype ctx_value =
    FormClass form_class
  | FormObject form
  | Object activity_instance
  | Next string
  | ErrorMessage "string list"
  | Instances "activity_instance list"
  | Str string
  | Workflows "string list"

datatype response =
    HttpResponseRedirect string
  | TemplateResponse string "(string \<times> ctx_value) list"
  | OtherResponse string

datatype error =
    MissingParameterError string
  | UnknownWorkflowError string
  | DoesNotExist
  | KeyError string
  | MultiValueDictKeyError string

datatype view = ViewActivity | RollBackActivity | DeleteActivity | CreateActivity | UpdateActivity

datatype event =
    AtomicEnter
  | AtomicCommit
  | AtomicRollback
  | Check view
  | InitiateRequest string
  | AssignTask string
  | TaskInitiate
  | TaskRollback
  | TaskSubmit string string string
  | FormSave "(string \<times> string) list"
  | InstanceUpdate
  | InstanceFinish
  | InstanceNext
  | SuperDispatch view

record step =
  model :: model
  form_schema :: form_class

record flow =
  INITIAL :: string
  FLOW :: "(string \<times> step) list"

subsection \<open>The environment: everything the module imports\<close>

record 'db env =
  WORKFLOW_APPS :: "string list"
  REQUEST_IDENTIFIER :: string
  get_request_params :: "string \<Rightarrow> kwargs \<Rightarrow> error + string"
  flow_config :: "string \<Rightarrow> error + flow"
  get_model :: "kwargs \<Rightarrow> error + model"
  get_form_instance :: "kwargs \<Rightarrow> error + form_class"
  get_model_instance :: "request \<Rightarrow> kwargs \<Rightarrow> 'db \<Rightarrow> error + activity_instance"
  apps_get_model :: "string \<Rightarrow> string \<Rightarrow> error + model"
  all_objects :: "string \<Rightarrow> string \<Rightarrow> 'db \<Rightarrow> activity_instance list"
  guard :: "view \<Rightarrow> request \<Rightarrow> kwargs \<Rightarrow> 'db \<Rightarrow> response option"
  apply_call :: "event \<Rightarrow> activity_instance \<Rightarrow> 'db \<Rightarrow> activity_instance \<times> 'db"
  next_step :: "activity_instance \<Rightarrow> 'db \<Rightarrow> string"
  generic_dispatch :: "view \<Rightarrow> model \<Rightarrow> string option \<Rightarrow> request \<Rightarrow> kwargs \<Rightarrow> 'db \<Rightarrow> response \<times> 'db"
  reverse :: "string \<Rightarrow> string list \<Rightarrow> string"

subsection \<open>The monad of a handler\<close>

record 'db state =
  trace :: "event list"
  db :: 'db

type_synonym ('a, 'db) m = "'db state \<Rightarrow> (error + 'a) \<times> 'db state"

definition return :: "'a \<Rightarrow> ('a, 'db) m" where
  "return x s = (Inr x, s)"

definition raise :: "error \<Rightarrow> ('a, 'db) m" where
  "raise e s = (Inl e, s)"

definition and_then :: "('a, 'db) m \<Rightarrow> ('a \<Rightarrow> ('b, 'db) m) \<Rightarrow> ('b, 'db) m" where
  "and_then f g s = (case f s of (Inl e, s') \<Rightarrow> (Inl e, s') | (Inr x, s') \<Rightarrow> g x s')"

text \<open>A helper that returns or raises, and one that also reads the store.\<close>

definition lift :: "error + 'a \<Rightarrow> ('a, 'db) m" where
  "lift r s = (r, s)"

definition lift_db :: "('db \<Rightarrow> error + 'a) \<Rightarrow> ('a, 'db) m" where
  "lift_db f s = (f (db s), s)"

text \<open>A call on the instance, its task or its form: recorded, then applied.\<close>

definition call :: "'db env \<Rightarrow> event \<Rightarrow> activity_instance \<Rightarrow> (activity_instance, 'db) m" where
  "call env ev inst s =
     (Inr (fst (apply_call env ev inst (db s))),
      \<lparr>trace = trace s @ [ev], db = snd (apply_call env ev inst (db s))\<rparr>)"

text \<open>\<^verbatim>\<open>instance.next()\<close>, whose value goes into the template context.\<close>

definition call_next :: "'db env \<Rightarrow> activity_instance \<Rightarrow> (string, 'db) m" where
  "call_next env inst s = (Inr (next_step env inst (db s)), \<lparr>trace = trace s @ [InstanceNext], db = db s\<rparr>)"

text \<open>
  \<^verbatim>\<open>self.check(request, **kwargs)\<close> of the access mixin: \<open>None\<close> lets the handler go
  on, a response is the denial.
\<close>

definition check :: "'db env \<Rightarrow> view \<Rightarrow> request \<Rightarrow> kwargs \<Rightarrow> (response option, 'db) m" where
  "check env v req kw s = (Inr (guard env v req kw (db s)), \<lparr>trace = trace s @ [Check v], db = db s\<rparr>)"

text \<open>\<^verbatim>\<open>super(...).dispatch(request, *args, **kwargs)\<close> of a generic view.\<close>

definition super_dispatch ::
  "'db env \<Rightarrow> view \<Rightarrow> model \<Rightarrow> string option \<Rightarrow> request \<Rightarrow> kwargs \<Rightarrow> (response, 'db) m" where
  "super_dispatch env v mdl success_url req kw s =
     (Inr (fst (generic_dispatch env v mdl success_url req kw (db s))),
      \<lparr>trace = trace s @ [SuperDispatch v], db = snd (generic_dispatch env v mdl success_url req kw (db s))\<rparr>)"

text \<open>
  \<^verbatim>\<open>@transaction.atomic\<close>: the block commits when it returns, whatever it returns, and
  is rolled back when an exception leaves it. The trace is an observation, not a part of
  the store, and survives the rollback.
\<close>

definition atomic :: "('a, 'db) m \<Rightarrow> ('a, 'db) m" where
  "atomic body s =
     (case body \<lparr>trace = trace s @ [AtomicEnter], db = db s\<rparr> of
        (Inr r, s') \<Rightarrow> (Inr r, \<lparr>trace = trace s' @ [AtomicCommit], db = db s'\<rparr>)
      | (Inl e, s') \<Rightarrow> (Inl e, \<lparr>trace = trace s' @ [AtomicRollback], db = db s\<rparr>))"

text \<open>One request: the handler runs on the store \<open>d\<close> with an empty trace.\<close>

definition run :: "('a, 'db) m \<Rightarrow> 'db \<Rightarrow> (error + 'a) \<times> 'db state" where
  "run h d = h \<lparr>trace = [], db = d\<rparr>"

text \<open>\<^verbatim>\<open>request.POST[key]\<close>: a missing key raises.\<close>

definition post_item :: "request \<Rightarrow> string \<Rightarrow> error + string" where
  "post_item req k = (case POST req k of None \<Rightarrow> Inl (MultiValueDictKeyError k) | Some v \<Rightarrow> Inr v)"

text \<open>
  Modelled from the spec: \<^verbatim>\<open>get_errors\<close> of the helpers module, which is not among the
  sources. The spec says of it only that the error message is derived from the form's
  field errors: here one line for each field with errors, the field's name and its
  messages.
\<close>

definition get_errors :: "(string \<times> string list) list \<Rightarrow> string list" where
  "get_errors errs = map (\<lambda>fe. fst fe @ '': '' @ concat (snd fe)) errs"

subsection \<open>The handlers\<close>

definition workflows :: "'db env \<Rightarrow> request \<Rightarrow> (response, 'db) m" where
  "workflows env req = return (TemplateResponse ''index.html'' [(''workflows'', Workflows (WORKFLOW_APPS env))])"

definition WorkflowDetail_get_context_data ::
  "'db env \<Rightarrow> kwargs \<Rightarrow> ((string \<times> ctx_value) list, 'db) m" where
  "WorkflowDetail_get_context_data env kw =
     and_then (lift (get_request_params env ''app_name'' kw)) (\<lambda>app_title.
     and_then (lift (flow_config env app_title)) (\<lambda>config.
     and_then (lift (case map_of (FLOW config) (INITIAL config) of
                       None \<Rightarrow> Inl (KeyError (INITIAL config))
                     | Some st \<Rightarrow> Inr (title (model st [])))) (\<lambda>model_title.
     and_then (lift (apps_get_model env app_title model_title)) (\<lambda>mdl.
     and_then (lift_db (\<lambda>d. Inr (all_objects env app_title (title (mdl [])) d))) (\<lambda>instances.
     return [(''instances'', Instances instances),
             (''request_identifier'', Str (REQUEST_IDENTIFIER env))])))))"

definition ViewActivity_dispatch :: "'db env \<Rightarrow> request \<Rightarrow> kwargs \<Rightarrow> (response, 'db) m" where
  "ViewActivity_dispatch env req kw =
     and_then (lift (get_model env kw)) (\<lambda>mdl.
     and_then (check env ViewActivity req kw) (\<lambda>denied.
     case denied of
       Some d \<Rightarrow> return d
     | None \<Rightarrow> super_dispatch env ViewActivity mdl None req kw))"

definition RollBackActivity_post :: "'db env \<Rightarrow> request \<Rightarrow> kwargs \<Rightarrow> (response, 'db) m" where
  "RollBackActivity_post env req kw = atomic (
     and_then (lift (get_request_params env ''app_name'' kw)) (\<lambda>app_title.
     and_then (lift_db (get_model_instance env req kw)) (\<lambda>inst.
     and_then (call env TaskRollback inst) (\<lambda>inst.
     and_then (check env RollBackActivity req kw) (\<lambda>denied.
     case denied of
       Some d \<Rightarrow> return d
     | None \<Rightarrow> return (HttpResponseRedirect (reverse env ''workflow-detail'' [app_title])))))))"

definition DeleteActivity_dispatch :: "'db env \<Rightarrow> request \<Rightarrow> kwargs \<Rightarrow> (response, 'db) m" where
  "DeleteActivity_dispatch env req kw =
     and_then (lift (get_model env kw)) (\<lambda>mdl.
     and_then (lift (get_request_params env ''app_name'' kw)) (\<lambda>app_title.
     super_dispatch env DeleteActivity mdl
       (Some (reverse env ''workflow-detail'' [app_title])) req kw))"

definition CreateActivity_get :: "'db env \<Rightarrow> request \<Rightarrow> kwargs \<Rightarrow> (response, 'db) m" where
  "CreateActivity_get env req kw =
     and_then (lift (get_form_instance env kw)) (\<lambda>fc.
     and_then (check env CreateActivity req kw) (\<lambda>denied.
     case denied of
       Some d \<Rightarrow> return d
     | None \<Rightarrow> return (TemplateResponse ''core/create.html'' [(''form'', FormClass fc)])))"

definition CreateActivity_post :: "'db env \<Rightarrow> request \<Rightarrow> kwargs \<Rightarrow> (response, 'db) m" where
  "CreateActivity_post env req kw = atomic (
     and_then (lift (get_model env kw)) (\<lambda>mdl.
     and_then (lift (get_form_instance env kw)) (\<lambda>fc.
     and_then (lift (get_request_params env ''app_name'' kw)) (\<lambda>app_title.
     let frm = new_form fc (Some (POST req)) None in
     if is_valid frm then
       let inst = mdl (cleaned_data frm) in
       and_then
         (if is_initial inst then
            call env (InitiateRequest (user req)) inst
          else
            and_then (lift (get_request_params env ''pk'' kw)) (\<lambda>pk.
            and_then (call env (AssignTask pk) inst) (\<lambda>inst.
            call env TaskInitiate inst)))
         (\<lambda>inst. return (HttpResponseRedirect
            (reverse env ''update'' [app_title, title inst, ident inst])))
     else
       return (TemplateResponse ''core/create.html''
         [(''form'', FormObject frm),
          (''error_message'', ErrorMessage (get_errors (errors frm)))])))))"

definition UpdateActivity_get :: "'db env \<Rightarrow> request \<Rightarrow> kwargs \<Rightarrow> (response, 'db) m" where
  "UpdateActivity_get env req kw =
     and_then (lift_db (get_model_instance env req kw)) (\<lambda>inst.
     and_then (lift (get_form_instance env kw)) (\<lambda>fc.
     and_then (call_next env inst) (\<lambda>nxt.
     and_then (check env UpdateActivity req kw) (\<lambda>denied.
     case denied of
       Some d \<Rightarrow> return d
     | None \<Rightarrow> return (TemplateResponse ''core/update.html''
         [(''form'', FormObject (new_form fc None (Some inst))),
          (''object'', Object inst),
          (''next'', Next nxt)])))))"

definition UpdateActivity_post :: "'db env \<Rightarrow> request \<Rightarrow> kwargs \<Rightarrow> (response, 'db) m" where
  "UpdateActivity_post env req kw = atomic (
     and_then (lift_db (get_model_instance env req kw)) (\<lambda>inst.
     and_then (lift (get_request_params env ''app_name'' kw)) (\<lambda>app_title.
     and_then (lift (get_form_instance env kw)) (\<lambda>fc.
     let frm = new_form fc (Some (POST req)) (Some inst) in
     if is_valid frm then
       and_then (call env (FormSave (cleaned_data frm)) inst) (\<lambda>inst.
       if POST req ''save'' \<noteq> None then
         and_then (call env InstanceUpdate inst) (\<lambda>inst.
         return (HttpResponseRedirect
           (reverse env ''update'' [app_title, title inst, ident inst])))
       else
         and_then
           (if POST req ''finish'' \<noteq> None then
              call env InstanceFinish inst
            else
              and_then (lift (post_item req ''submit'')) (\<lambda>decision.
              call env (TaskSubmit app_title (user req) decision) inst))
           (\<lambda>inst. return (HttpResponseRedirect (reverse env ''workflow-detail'' [app_title]))))
     else
       and_then (call_next env inst) (\<lambda>nxt.
       return (TemplateResponse ''core/update.html''
         [(''form'', FormObject frm),
          (''object'', Object inst),
          (''next'', Next nxt),
          (''error_message'', ErrorMessage (get_errors (errors frm)))]))))))"

subsection \<open>The locators, as the spec describes them\<close>

text \<open>
  The helpers module is not among the sources. For the claim about unregistered
  applications the locators are modelled from the spec's sections 4.1, 4.2 and 7 over a
  registry of workflow definitions, one for each registered application.
\<close>

type_synonym registry = "string \<rightharpoonup> flow"

text \<open>
  Modelled from the spec: \<^verbatim>\<open>get_request_params\<close>, the Parameter Resolver, which is
  not among the sources. It reads a key of the routed arguments and fails with
  MissingParameterError if the key is absent.
\<close>

definition spec_get_request_params :: "string \<Rightarrow> kwargs \<Rightarrow> error + string" where
  "spec_get_request_params what kw =
     (case kw what of None \<Rightarrow> Inl (MissingParameterError what) | Some v \<Rightarrow> Inr v)"

text \<open>
  Modelled from the spec: \<^verbatim>\<open>flow_config\<close>, the lookup of an application's workflow
  definition, which is not among the sources. It fails with UnknownWorkflowError if the
  application is not registered.
\<close>

definition spec_flow_config :: "registry \<Rightarrow> string \<Rightarrow> error + flow" where
  "spec_flow_config reg app =
     (case reg app of None \<Rightarrow> Inl (UnknownWorkflowError app) | Some config \<Rightarrow> Inr config)"

text \<open>
  Modelled from the spec: the name-based lookup of the Model/Form Locator, which is not
  among the sources. It resolves the application and the model title, then looks the
  step up in the registry, and fails with UnknownWorkflowError if the application or the
  model title is not registered.
\<close>

definition spec_locate_step :: "registry \<Rightarrow> kwargs \<Rightarrow> error + step" where
  "spec_locate_step reg kw =
     (case spec_get_request_params ''app_name'' kw of
        Inl e \<Rightarrow> Inl e
      | Inr app \<Rightarrow>
     (case spec_get_request_params ''model_title'' kw of
        Inl e \<Rightarrow> Inl e
      | Inr name \<Rightarrow>
     (case spec_flow_config reg app of
        Inl e \<Rightarrow> Inl e
      | Inr config \<Rightarrow>
     (case find (\<lambda>st. title (model st []) = name) (map snd (FLOW config)) of
        None \<Rightarrow> Inl (UnknownWorkflowError name)
      | Some st \<Rightarrow> Inr st))))"

text \<open>
  Modelled from the spec: \<^verbatim>\<open>get_model\<close> (locateModel), which is not among the sources:
  the entity type of the located step.
\<close>

definition spec_get_model :: "registry \<Rightarrow> kwargs \<Rightarrow> error + model" where
  "spec_get_model reg kw =
     (case spec_locate_step reg kw of Inl e \<Rightarrow> Inl e | Inr st \<Rightarrow> Inr (model st))"

text \<open>
  Modelled from the spec: \<^verbatim>\<open>get_form_instance\<close> (locateForm), which is not among the
  sources: the input-validation schema of the located step.
\<close>

definition spec_get_form_instance :: "registry \<Rightarrow> kwargs \<Rightarrow> error + form_class" where
  "spec_get_form_instance reg kw =
     (case spec_locate_step reg kw of Inl e \<Rightarrow> Inl e | Inr st \<Rightarrow> Inr (form_schema st))"

text \<open>
  Modelled from the spec: \<^verbatim>\<open>get_model_instance\<close> (locate instance), which is not among
  the sources: the entity type is located, then the instance with the routed primary key is
  fetched from the store.
\<close>

definition spec_get_model_instance ::
  "registry \<Rightarrow> (model \<Rightarrow> string \<Rightarrow> 'db \<Rightarrow> activity_instance option) \<Rightarrow>
   request \<Rightarrow> kwargs \<Rightarrow> 'db \<Rightarrow> error + activity_instance" where
  "spec_get_model_instance reg objects_get req kw d =
     (case spec_get_model reg kw of
        Inl e \<Rightarrow> Inl e
      | Inr mdl \<Rightarrow>
     (case spec_get_request_params ''pk'' kw of
        Inl e \<Rightarrow> Inl e
      | Inr pk \<Rightarrow>
     (case objects_get mdl pk d of
        None \<Rightarrow> Inl DoesNotExist
      | Some inst \<Rightarrow> Inr inst)))"

text \<open>An environment whose locators are the ones above.\<close>

definition with_spec_locators ::
  "registry \<Rightarrow> (model \<Rightarrow> string \<Rightarrow> 'db \<Rightarrow> activity_instance option) \<Rightarrow> 'db env \<Rightarrow> 'db env" where
  "with_spec_locators reg objects_get env =
     env\<lparr>get_request_params := spec_get_request_params,
         flow_config := spec_flow_config reg,
         get_model := spec_get_model reg,
         get_form_instance := spec_get_form_instance reg,
         get_model_instance := spec_get_model_instance reg objects_get\<rparr>"

text \<open>
  The spec's section 7 puts UnknownWorkflowError and MissingParameterError in one class: a
  not-found fault of the framework. A not-found outcome of a request on the store \<open>d\<close>
  is such a fault that leaves the store as it was and has called no collaborator.
\<close>

definition is_not_found :: "error \<Rightarrow> bool" where
  "is_not_found e =
     (case e of MissingParameterError k \<Rightarrow> True | UnknownWorkflowError n \<Rightarrow> True | _ \<Rightarrow> False)"

definition not_found_outcome :: "'db \<Rightarrow> (error + 'a) \<times> 'db state \<Rightarrow> bool" where
  "not_found_outcome d out =
     ((case fst out of Inl e \<Rightarrow> is_not_found e | Inr r \<Rightarrow> False)
      \<and> db (snd out) = d
      \<and> list_all (\<lambda>ev. ev = AtomicEnter \<or> ev = AtomicRollback) (trace (snd out)))"

subsection \<open>A concrete workflow\<close>

text \<open>
  The leave-request workflow of the spec's scenario: an initial step LeaveRequest and a
  step LeaveApproval, one form with a required field, a store that is the list of the
  persisted instances, and a guard that lets only alice through.
\<close>

definition LeaveRequest :: model where
  "LeaveRequest cd = \<lparr>title = ''LeaveRequest'', ident = ''None'', is_initial = True, attrs = cd\<rparr>"

definition LeaveApproval :: model where
  "LeaveApproval cd = \<lparr>title = ''LeaveApproval'', ident = ''None'', is_initial = False, attrs = cd\<rparr>"

definition reason_form :: form_class where
  "reason_form data inst =
     (case data ''reason'' of
        None \<Rightarrow> ([(''reason'', [''This field is required.''])], [])
      | Some v \<Rightarrow> ([], [(''reason'', v)]))"

definition leave_registry :: registry where
  "leave_registry =
     [''leave-request'' \<mapsto>
        \<lparr>INITIAL = ''request'',
         FLOW = [(''request'', \<lparr>model = LeaveRequest, form_schema = reason_form\<rparr>),
                 (''approve'', \<lparr>model = LeaveApproval, form_schema = reason_form\<rparr>)]\<rparr>]"

definition leave_objects_get :: "model \<Rightarrow> string \<Rightarrow> activity_instance list \<Rightarrow> activity_instance option" where
  "leave_objects_get mdl pk d = find (\<lambda>i. ident i = pk \<and> title i = title (mdl [])) d"

definition leave_apply_call ::
  "event \<Rightarrow> activity_instance \<Rightarrow> activity_instance list \<Rightarrow> activity_instance \<times> activity_instance list" where
  "leave_apply_call ev inst d =
     (case ev of
        InitiateRequest u \<Rightarrow> (inst\<lparr>ident := ''7''\<rparr>, inst\<lparr>ident := ''7''\<rparr> # d)
      | AssignTask pk \<Rightarrow> (inst\<lparr>ident := ''7''\<rparr>, inst\<lparr>ident := ''7''\<rparr> # d)
      | FormSave cd \<Rightarrow> (inst\<lparr>attrs := cd\<rparr>, inst\<lparr>attrs := cd\<rparr> # filter (\<lambda>i. ident i \<noteq> ident inst) d)
      | TaskRollback \<Rightarrow> (inst, filter (\<lambda>i. ident i \<noteq> ident inst) d)
      | _ \<Rightarrow> (inst, d))"

definition leave_base :: "activity_instance list env" where
  "leave_base =
     \<lparr>WORKFLOW_APPS = [''leave-request''],
      REQUEST_IDENTIFIER = ''Initial'',
      get_request_params = (\<lambda>what kw. Inl (MissingParameterError what)),
      flow_config = (\<lambda>app. Inl (UnknownWorkflowError app)),
      get_model = (\<lambda>kw. Inl (UnknownWorkflowError [])),
      get_form_instance = (\<lambda>kw. Inl (UnknownWorkflowError [])),
      get_model_instance = (\<lambda>req kw d. Inl DoesNotExist),
      apps_get_model = (\<lambda>app name.
         if name = ''LeaveRequest'' then Inr LeaveRequest
         else if name = ''LeaveApproval'' then Inr LeaveApproval
         else Inl (KeyError name)),
      all_objects = (\<lambda>app name d. filter (\<lambda>i. title i = name) d),
      guard = (\<lambda>v req kw d. if user req = ''alice'' then None else Some (OtherResponse ''denied'')),
      apply_call = leave_apply_call,
      next_step = (\<lambda>inst d. ''approve''),
      generic_dispatch = (\<lambda>v mdl success_url req kw d. (OtherResponse ''generic'', d)),
      reverse = (\<lambda>name args. name @ concat (map (\<lambda>a. CHR ''/'' # a) args))\<rparr>"

definition leave_env :: "activity_instance list env" where
  "leave_env = with_spec_locators leave_registry leave_objects_get leave_base"

definition leave_db :: "activity_instance list" where
  "leave_db = [\<lparr>title = ''LeaveRequest'', ident = ''1'', is_initial = True, attrs = [(''reason'', ''holiday'')]\<rparr>]"

definition create_kwargs :: "string \<Rightarrow> kwargs" where
  "create_kwargs name = [''app_name'' \<mapsto> ''leave-request'', ''model_title'' \<mapsto> name, ''pk'' \<mapsto> ''42'']"

definition update_kwargs :: kwargs where
  "update_kwargs = [''app_name'' \<mapsto> ''leave-request'', ''model_title'' \<mapsto> ''LeaveRequest'', ''pk'' \<mapsto> ''1'']"

definition mallory_create :: request where
  "mallory_create = \<lparr>user = ''mallory'', POST = [''reason'' \<mapsto> ''flu'']\<rparr>"

definition mallory_save :: request where
  "mallory_save = \<lparr>user = ''mallory'', POST = [''reason'' \<mapsto> ''flu'', ''save'' \<mapsto> ''Save'']\<rparr>"

definition alice_view :: request where
  "alice_view = \<lparr>user = ''alice'', POST = Map.empty\<rparr>"

definition mallory_both :: request where
  "mallory_both = \<lparr>user = ''mallory'',
     POST = [''reason'' \<mapsto> ''flu'', ''save'' \<mapsto> ''Save'', ''finish'' \<mapsto> ''Finish'']\<rparr>"

definition alice_finish :: request where
  "alice_finish = \<lparr>user = ''alice'', POST = [''reason'' \<mapsto> ''flu'', ''finish'' \<mapsto> ''Finish'']\<rparr>"

definition alice_submit :: request where
  "alice_submit = \<lparr>user = ''alice'', POST = [''reason'' \<mapsto> ''flu'', ''submit'' \<mapsto> ''approve'']\<rparr>"

definition alice_plain :: request where
  "alice_plain = \<lparr>user = ''alice'', POST = [''reason'' \<mapsto> ''flu'']\<rparr>"

definition unknown_kwargs :: kwargs where
  "unknown_kwargs = [''app_name'' \<mapsto> ''payroll'', ''model_title'' \<mapsto> ''Payslip'', ''pk'' \<mapsto> ''1'']"

definition mallory_empty :: request where
  "mallory_empty = \<lparr>user = ''mallory'', POST = Map.empty\<rparr>"

section \<open>Properties\<close>

subsection \<open>Unfolding and evaluation\<close>

lemmas monad_defs = return_def raise_def and_then_def lift_def lift_db_def call_def
  call_next_def check_def super_dispatch_def atomic_def run_def

lemmas leave_defs = leave_env_def leave_base_def with_spec_locators_def spec_get_request_params_def
  spec_flow_config_def spec_locate_step_def spec_get_model_def spec_get_form_instance_def
  spec_get_model_instance_def leave_registry_def leave_objects_get_def leave_apply_call_def
  leave_db_def create_kwargs_def update_kwargs_def LeaveRequest_def LeaveApproval_def
  reason_form_def new_form_def is_valid_def mallory_create_def mallory_save_def

lemmas more_defs = alice_view_def

lemmas req_defs = mallory_both_def alice_finish_def alice_submit_def alice_plain_def unknown_kwargs_def

subsection \<open>What each handler does once its request is located\<close>

lemma CreateActivity_post_initial:
  assumes "get_model env kw = Inr mdl" "get_form_instance env kw = Inr fc"
    "get_request_params env ''app_name'' kw = Inr app"
    "is_valid (new_form fc (Some (POST req)) None)"
    "is_initial (mdl (cleaned_data (new_form fc (Some (POST req)) None)))"
  shows "run (CreateActivity_post env req kw) d =
    (let inst = mdl (cleaned_data (new_form fc (Some (POST req)) None));
         r = apply_call env (InitiateRequest (user req)) inst d
     in (Inr (HttpResponseRedirect (reverse env ''update'' [app, title (fst r), ident (fst r)])),
         \<lparr>trace = [AtomicEnter, InitiateRequest (user req), AtomicCommit], db = snd r\<rparr>))"
  using assms by (simp add: CreateActivity_post_def monad_defs Let_def)

lemma CreateActivity_post_assign:
  assumes "get_model env kw = Inr mdl" "get_form_instance env kw = Inr fc"
    "get_request_params env ''app_name'' kw = Inr app"
    "is_valid (new_form fc (Some (POST req)) None)"
    "\<not> is_initial (mdl (cleaned_data (new_form fc (Some (POST req)) None)))"
    "get_request_params env ''pk'' kw = Inr pk"
  shows "run (CreateActivity_post env req kw) d =
    (let inst = mdl (cleaned_data (new_form fc (Some (POST req)) None));
         r1 = apply_call env (AssignTask pk) inst d;
         r2 = apply_call env TaskInitiate (fst r1) (snd r1)
     in (Inr (HttpResponseRedirect (reverse env ''update'' [app, title (fst r2), ident (fst r2)])),
         \<lparr>trace = [AtomicEnter, AssignTask pk, TaskInitiate, AtomicCommit], db = snd r2\<rparr>))"
  using assms by (simp add: CreateActivity_post_def monad_defs Let_def)


lemma UpdateActivity_post_save:
  assumes "get_model_instance env req kw d = Inr inst" "get_form_instance env kw = Inr fc"
    "get_request_params env ''app_name'' kw = Inr app"
    "is_valid (new_form fc (Some (POST req)) (Some inst))"
    "POST req ''save'' = Some v"
  shows "run (UpdateActivity_post env req kw) d =
    (let r1 = apply_call env (FormSave (cleaned_data (new_form fc (Some (POST req)) (Some inst)))) inst d;
         r2 = apply_call env InstanceUpdate (fst r1) (snd r1)
     in (Inr (HttpResponseRedirect (reverse env ''update'' [app, title (fst r2), ident (fst r2)])),
         \<lparr>trace = [AtomicEnter, FormSave (cleaned_data (new_form fc (Some (POST req)) (Some inst))),
                   InstanceUpdate, AtomicCommit], db = snd r2\<rparr>))"
  using assms by (simp add: UpdateActivity_post_def monad_defs Let_def)

lemma UpdateActivity_post_finish:
  assumes "get_model_instance env req kw d = Inr inst" "get_form_instance env kw = Inr fc"
    "get_request_params env ''app_name'' kw = Inr app"
    "is_valid (new_form fc (Some (POST req)) (Some inst))"
    "POST req ''save'' = None" "POST req ''finish'' = Some v"
  shows "run (UpdateActivity_post env req kw) d =
    (let r1 = apply_call env (FormSave (cleaned_data (new_form fc (Some (POST req)) (Some inst)))) inst d;
         r2 = apply_call env InstanceFinish (fst r1) (snd r1)
     in (Inr (HttpResponseRedirect (reverse env ''workflow-detail'' [app])),
         \<lparr>trace = [AtomicEnter, FormSave (cleaned_data (new_form fc (Some (POST req)) (Some inst))),
                   InstanceFinish, AtomicCommit], db = snd r2\<rparr>))"
  using assms by (simp add: UpdateActivity_post_def monad_defs Let_def)

lemma UpdateActivity_post_submit:
  assumes "get_model_instance env req kw d = Inr inst" "get_form_instance env kw = Inr fc"
    "get_request_params env ''app_name'' kw = Inr app"
    "is_valid (new_form fc (Some (POST req)) (Some inst))"
    "POST req ''save'' = None" "POST req ''finish'' = None" "POST req ''submit'' = Some v"
  shows "run (UpdateActivity_post env req kw) d =
    (let r1 = apply_call env (FormSave (cleaned_data (new_form fc (Some (POST req)) (Some inst)))) inst d;
         r2 = apply_call env (TaskSubmit app (user req) v) (fst r1) (snd r1)
     in (Inr (HttpResponseRedirect (reverse env ''workflow-detail'' [app])),
         \<lparr>trace = [AtomicEnter, FormSave (cleaned_data (new_form fc (Some (POST req)) (Some inst))),
                   TaskSubmit app (user req) v, AtomicCommit], db = snd r2\<rparr>))"
  using assms by (simp add: UpdateActivity_post_def monad_defs Let_def post_item_def)

lemma UpdateActivity_post_no_control:
  assumes "get_model_instance env req kw d = Inr inst" "get_form_instance env kw = Inr fc"
    "get_request_params env ''app_name'' kw = Inr app"
    "is_valid (new_form fc (Some (POST req)) (Some inst))"
    "POST req ''save'' = None" "POST req ''finish'' = None" "POST req ''submit'' = None"
  shows "run (UpdateActivity_post env req kw) d =
    (Inl (MultiValueDictKeyError ''submit''),
     \<lparr>trace = [AtomicEnter, FormSave (cleaned_data (new_form fc (Some (POST req)) (Some inst))),
               AtomicRollback], db = d\<rparr>)"
  using assms by (simp add: UpdateActivity_post_def monad_defs Let_def post_item_def)

lemma RollBackActivity_post_located:
  assumes "get_request_params env ''app_name'' kw = Inr app"
    "get_model_instance env req kw d = Inr inst"
  shows "run (RollBackActivity_post env req kw) d =
    (let r = apply_call env TaskRollback inst d
     in (Inr (case guard env RollBackActivity req kw (snd r) of
                Some denial \<Rightarrow> denial
              | None \<Rightarrow> HttpResponseRedirect (reverse env ''workflow-detail'' [app])),
         \<lparr>trace = [AtomicEnter, TaskRollback, Check RollBackActivity, AtomicCommit], db = snd r\<rparr>))"
  using assms by (simp add: RollBackActivity_post_def monad_defs Let_def split: option.splits)

lemma leave_update_located:
  "get_model_instance leave_env req update_kwargs leave_db
     = Inr \<lparr>title = ''LeaveRequest'', ident = ''1'', is_initial = True, attrs = [(''reason'', ''holiday'')]\<rparr>"
  "get_form_instance leave_env update_kwargs = Inr reason_form"
  "get_request_params leave_env ''app_name'' update_kwargs = Inr ''leave-request''"
  by (simp_all add: leave_defs)

subsection \<open>Where the guard is called\<close>

lemma ViewActivity_dispatch_checks:
  "fst (run (ViewActivity_dispatch env req kw) d) = Inr r \<Longrightarrow>
   Check ViewActivity \<in> set (trace (snd (run (ViewActivity_dispatch env req kw) d)))"
  by (cases "get_model env kw")
     (simp_all add: ViewActivity_dispatch_def monad_defs split: option.splits)

lemma CreateActivity_get_checks:
  "fst (run (CreateActivity_get env req kw) d) = Inr r \<Longrightarrow>
   Check CreateActivity \<in> set (trace (snd (run (CreateActivity_get env req kw) d)))"
  by (cases "get_form_instance env kw")
     (simp_all add: CreateActivity_get_def monad_defs split: option.splits)

lemma UpdateActivity_get_checks:
  "fst (run (UpdateActivity_get env req kw) d) = Inr r \<Longrightarrow>
   Check UpdateActivity \<in> set (trace (snd (run (UpdateActivity_get env req kw) d)))"
  by (cases "get_model_instance env req kw d"; cases "get_form_instance env kw")
     (simp_all add: UpdateActivity_get_def monad_defs split: option.splits)

lemma RollBackActivity_post_checks:
  "fst (run (RollBackActivity_post env req kw) d) = Inr r \<Longrightarrow>
   Check RollBackActivity \<in> set (trace (snd (run (RollBackActivity_post env req kw) d)))"
  by (cases "get_request_params env ''app_name'' kw"; cases "get_model_instance env req kw d")
     (simp_all add: RollBackActivity_post_def monad_defs split: option.splits)

lemma DeleteActivity_dispatch_no_check:
  "Check v \<notin> set (trace (snd (run (DeleteActivity_dispatch env req kw) d)))"
  by (cases "get_model env kw"; cases "get_request_params env ''app_name'' kw")
     (simp_all add: DeleteActivity_dispatch_def monad_defs)

subsection \<open>Form errors and unregistered applications\<close>



lemma unregistered_locators:
  assumes "kw ''app_name'' = Some app" and "reg app = None"
  shows "spec_get_request_params ''app_name'' kw = Inr app"
    and "spec_flow_config reg app = Inl (UnknownWorkflowError app)"
    and "\<exists>e. spec_get_model reg kw = Inl e \<and> is_not_found e"
    and "\<exists>e. spec_get_form_instance reg kw = Inl e \<and> is_not_found e"
  using assms
  by (auto simp add: spec_get_request_params_def spec_flow_config_def spec_locate_step_def
      spec_get_model_def spec_get_form_instance_def is_not_found_def
      split: option.splits)

lemma unregistered_instance:
  assumes "kw ''app_name'' = Some app" and "reg app = None"
  shows "\<exists>e. spec_get_model_instance reg objects_get req kw d = Inl e \<and> is_not_found e"
  using assms
  by (auto simp add: spec_get_request_params_def spec_flow_config_def spec_locate_step_def
      spec_get_model_def spec_get_model_instance_def is_not_found_def
      split: option.splits)

subsection \<open>The claims\<close>

text \<open>
  C1: a Create-POST with valid form data is to call the access guard before the
  transaction commits, and a denial is to keep the instance out of the store. The handler
  does not do so. The guard denies mallory, and her GET of the create form is answered
  with the denial; her POST of a valid form runs with no check in the trace, calls
  \<^verbatim>\<open>initiate_request\<close>, commits, leaves the new instance in the store and redirects
  to its Update view.
\<close>

theorem create_post_skips_guard:
  "is_valid (new_form reason_form (Some (POST mallory_create)) None)
   \<and> guard leave_env CreateActivity mallory_create (create_kwargs ''LeaveRequest'') leave_db
       = Some (OtherResponse ''denied'')
   \<and> fst (run (CreateActivity_get leave_env mallory_create (create_kwargs ''LeaveRequest'')) leave_db)
       = Inr (OtherResponse ''denied'')
   \<and> trace (snd (run (CreateActivity_get leave_env mallory_create (create_kwargs ''LeaveRequest'')) leave_db))
       = [Check CreateActivity]
   \<and> trace (snd (run (CreateActivity_post leave_env mallory_create (create_kwargs ''LeaveRequest'')) leave_db))
       = [AtomicEnter, InitiateRequest ''mallory'', AtomicCommit]
   \<and> Check CreateActivity \<notin> set (trace (snd (run (CreateActivity_post leave_env mallory_create
         (create_kwargs ''LeaveRequest'')) leave_db)))
   \<and> fst (run (CreateActivity_post leave_env mallory_create (create_kwargs ''LeaveRequest'')) leave_db)
       = Inr (HttpResponseRedirect ''update/leave-request/LeaveRequest/7'')
   \<and> db (snd (run (CreateActivity_post leave_env mallory_create (create_kwargs ''LeaveRequest'')) leave_db))
       = \<lparr>title = ''LeaveRequest'', ident = ''7'', is_initial = True, attrs = [(''reason'', ''flu'')]\<rparr>
         # leave_db"
  by (simp add: CreateActivity_post_def CreateActivity_get_def monad_defs leave_defs)

text \<open>
  C2: the access guard is to be called in every View, Create, Update and Rollback request,
  GET and POST alike. The two POST handlers with a form do not call it. The guard denies
  mallory, and her GET of the update form is answered with the denial after the check; her
  POST with \<^verbatim>\<open>save\<close> saves the form, updates the instance, commits and redirects,
  with no check in the trace, and so does her Create-POST.
\<close>

theorem update_post_skips_guard:
  "guard leave_env UpdateActivity mallory_save update_kwargs leave_db = Some (OtherResponse ''denied'')
   \<and> fst (run (UpdateActivity_get leave_env mallory_save update_kwargs) leave_db)
       = Inr (OtherResponse ''denied'')
   \<and> trace (snd (run (UpdateActivity_get leave_env mallory_save update_kwargs) leave_db))
       = [InstanceNext, Check UpdateActivity]
   \<and> fst (run (UpdateActivity_post leave_env mallory_save update_kwargs) leave_db)
       = Inr (HttpResponseRedirect ''update/leave-request/LeaveRequest/1'')
   \<and> Check UpdateActivity \<notin> set (trace (snd (run (UpdateActivity_post leave_env mallory_save update_kwargs) leave_db)))
   \<and> trace (snd (run (UpdateActivity_post leave_env mallory_save update_kwargs) leave_db))
       = [AtomicEnter, FormSave [(''reason'', ''flu'')], InstanceUpdate, AtomicCommit]
   \<and> fst (run (CreateActivity_post leave_env mallory_save (create_kwargs ''LeaveApproval'')) leave_db)
       = Inr (HttpResponseRedirect ''update/leave-request/LeaveApproval/7'')
   \<and> trace (snd (run (CreateActivity_post leave_env mallory_save (create_kwargs ''LeaveApproval'')) leave_db))
       = [AtomicEnter, AssignTask ''42'', TaskInitiate, AtomicCommit]"
  by (simp add: UpdateActivity_post_def UpdateActivity_get_def CreateActivity_post_def
      monad_defs leave_defs)

text \<open>
  The sibling handlers do call the guard: whenever View, Create-GET, Update-GET or
  Rollback-POST returns a response, the check is in the trace of that request. Delete
  never calls it.
\<close>

theorem guard_invocation:
  "(\<forall>r. fst (run (ViewActivity_dispatch env req kw) d) = Inr r \<longrightarrow>
        Check ViewActivity \<in> set (trace (snd (run (ViewActivity_dispatch env req kw) d))))
   \<and> (\<forall>r. fst (run (CreateActivity_get env req kw) d) = Inr r \<longrightarrow>
        Check CreateActivity \<in> set (trace (snd (run (CreateActivity_get env req kw) d))))
   \<and> (\<forall>r. fst (run (UpdateActivity_get env req kw) d) = Inr r \<longrightarrow>
        Check UpdateActivity \<in> set (trace (snd (run (UpdateActivity_get env req kw) d))))
   \<and> (\<forall>r. fst (run (RollBackActivity_post env req kw) d) = Inr r \<longrightarrow>
        Check RollBackActivity \<in> set (trace (snd (run (RollBackActivity_post env req kw) d))))
   \<and> (\<forall>v. Check v \<notin> set (trace (snd (run (DeleteActivity_dispatch env req kw) d))))"
  by (auto elim: ViewActivity_dispatch_checks CreateActivity_get_checks UpdateActivity_get_checks
      RollBackActivity_post_checks simp: DeleteActivity_dispatch_no_check)

theorem guard_invocation_witness:
  "fst (run (ViewActivity_dispatch leave_env alice_view update_kwargs) leave_db) = Inr (OtherResponse ''generic'')
   \<and> Check ViewActivity \<in> set (trace (snd (run (ViewActivity_dispatch leave_env alice_view update_kwargs) leave_db)))
   \<and> fst (run (CreateActivity_get leave_env alice_view update_kwargs) leave_db)
       = Inr (TemplateResponse ''core/create.html'' [(''form'', FormClass reason_form)])
   \<and> Check CreateActivity \<in> set (trace (snd (run (CreateActivity_get leave_env alice_view update_kwargs) leave_db)))
   \<and> fst (run (UpdateActivity_get leave_env mallory_save update_kwargs) leave_db) = Inr (OtherResponse ''denied'')
   \<and> Check UpdateActivity \<in> set (trace (snd (run (UpdateActivity_get leave_env mallory_save update_kwargs) leave_db)))
   \<and> fst (run (RollBackActivity_post leave_env alice_view update_kwargs) leave_db)
       = Inr (HttpResponseRedirect ''workflow-detail/leave-request'')
   \<and> Check RollBackActivity \<in> set (trace (snd (run (RollBackActivity_post leave_env alice_view update_kwargs) leave_db)))
   \<and> Check DeleteActivity \<notin> set (trace (snd (run (DeleteActivity_dispatch leave_env alice_view update_kwargs) leave_db)))"
proof -
  have v: "fst (run (ViewActivity_dispatch leave_env alice_view update_kwargs) leave_db) = Inr (OtherResponse ''generic'')"
    by (simp add: ViewActivity_dispatch_def monad_defs leave_defs more_defs)
  have c: "fst (run (CreateActivity_get leave_env alice_view update_kwargs) leave_db)
       = Inr (TemplateResponse ''core/create.html'' [(''form'', FormClass reason_form)])"
    by (simp add: CreateActivity_get_def monad_defs leave_env_def leave_base_def with_spec_locators_def
        spec_get_request_params_def spec_flow_config_def spec_locate_step_def spec_get_model_def
        spec_get_form_instance_def leave_registry_def update_kwargs_def LeaveRequest_def
        LeaveApproval_def more_defs)
  have u: "fst (run (UpdateActivity_get leave_env mallory_save update_kwargs) leave_db) = Inr (OtherResponse ''denied'')"
    by (simp add: UpdateActivity_get_def monad_defs leave_defs more_defs)
  have b: "fst (run (RollBackActivity_post leave_env alice_view update_kwargs) leave_db)
       = Inr (HttpResponseRedirect ''workflow-detail/leave-request'')"
    by (simp add: RollBackActivity_post_def monad_defs leave_defs more_defs)
  from v c u b show ?thesis
    using guard_invocation [of leave_env alice_view update_kwargs leave_db]
      guard_invocation [of leave_env mallory_save update_kwargs leave_db]
    by blast
qed

text \<open>
  C3: for every located Create-POST request with valid form data, if the instantiated
  entity is the initial step, the calls are exactly \<^verbatim>\<open>initiate_request(request.user)\<close>,
  once, and no \<^verbatim>\<open>assign_task\<close>; otherwise they are exactly \<^verbatim>\<open>assign_task(pk)\<close>
  with the routed primary key and then \<^verbatim>\<open>task.initiate()\<close>, once each. In both cases
  the transaction commits and the response redirects to the Update view of the new
  instance, with the title and the id it has after the calls.
\<close>

theorem create_post_valid:
  assumes "get_model env kw = Inr mdl"
    and "get_form_instance env kw = Inr fc"
    and "get_request_params env ''app_name'' kw = Inr app"
    and "frm = new_form fc (Some (POST req)) None"
    and "is_valid frm"
    and "inst = mdl (cleaned_data frm)"
    and "out = run (CreateActivity_post env req kw) d"
  shows "(is_initial inst \<longrightarrow>
            trace (snd out) = [AtomicEnter, InitiateRequest (user req), AtomicCommit]
          \<and> db (snd out) = snd (apply_call env (InitiateRequest (user req)) inst d)
          \<and> fst out = Inr (HttpResponseRedirect (reverse env ''update''
               [app, title (fst (apply_call env (InitiateRequest (user req)) inst d)),
                     ident (fst (apply_call env (InitiateRequest (user req)) inst d))])))
    \<and> (\<not> is_initial inst \<and> get_request_params env ''pk'' kw = Inr pk \<longrightarrow>
            trace (snd out) = [AtomicEnter, AssignTask pk, TaskInitiate, AtomicCommit]
          \<and> (\<exists>new. new = fst (apply_call env TaskInitiate (fst (apply_call env (AssignTask pk) inst d))
                                  (snd (apply_call env (AssignTask pk) inst d)))
               \<and> fst out = Inr (HttpResponseRedirect (reverse env ''update'' [app, title new, ident new]))))"
  using assms CreateActivity_post_initial [of env kw mdl fc app req d]
    CreateActivity_post_assign [of env kw mdl fc app req pk d]
  by (simp add: Let_def)

theorem create_post_valid_witness:
  "trace (snd (run (CreateActivity_post leave_env mallory_create (create_kwargs ''LeaveRequest'')) leave_db))
     = [AtomicEnter, InitiateRequest ''mallory'', AtomicCommit]
   \<and> fst (run (CreateActivity_post leave_env mallory_create (create_kwargs ''LeaveRequest'')) leave_db)
     = Inr (HttpResponseRedirect ''update/leave-request/LeaveRequest/7'')
   \<and> trace (snd (run (CreateActivity_post leave_env mallory_create (create_kwargs ''LeaveApproval'')) leave_db))
     = [AtomicEnter, AssignTask ''42'', TaskInitiate, AtomicCommit]
   \<and> fst (run (CreateActivity_post leave_env mallory_create (create_kwargs ''LeaveApproval'')) leave_db)
     = Inr (HttpResponseRedirect ''update/leave-request/LeaveApproval/7'')"
proof -
  have a: "get_model leave_env (create_kwargs ''LeaveRequest'') = Inr LeaveRequest"
    and a': "get_model leave_env (create_kwargs ''LeaveApproval'') = Inr LeaveApproval"
    by (simp_all add: leave_defs)
  have b: "get_form_instance leave_env (create_kwargs n) = Inr reason_form"
    if "n = ''LeaveRequest'' \<or> n = ''LeaveApproval''" for n
    using that by (auto simp add: leave_defs)
  have c: "get_request_params leave_env ''app_name'' (create_kwargs n) = Inr ''leave-request''" for n
    by (simp add: leave_defs)
  have e: "is_valid (new_form reason_form (Some (POST mallory_create)) None)"
    by (simp add: leave_defs)
  have i: "is_initial (LeaveRequest cd)" and n: "\<not> is_initial (LeaveApproval cd)" for cd
    by (simp_all add: leave_defs)
  have p: "get_request_params leave_env ''pk'' (create_kwargs ''LeaveApproval'') = Inr ''42''"
    by (simp add: leave_defs)
  have m1: "fst (apply_call leave_env (InitiateRequest ''mallory'')
      (LeaveRequest (cleaned_data (new_form reason_form (Some (POST mallory_create)) None))) leave_db)
      = \<lparr>title = ''LeaveRequest'', ident = ''7'', is_initial = True, attrs = [(''reason'', ''flu'')]\<rparr>"
    by (simp add: leave_defs)
  have m2: "fst (apply_call leave_env TaskInitiate
      (fst (apply_call leave_env (AssignTask ''42'')
         (LeaveApproval (cleaned_data (new_form reason_form (Some (POST mallory_create)) None))) leave_db))
      (snd (apply_call leave_env (AssignTask ''42'')
         (LeaveApproval (cleaned_data (new_form reason_form (Some (POST mallory_create)) None))) leave_db)))
      = \<lparr>title = ''LeaveApproval'', ident = ''7'', is_initial = False, attrs = [(''reason'', ''flu'')]\<rparr>"
    by (simp add: leave_defs)
  have r: "reverse leave_env ''update'' [''leave-request'', t, ''7''] = ''update/leave-request/'' @ t @ ''/7''" for t
    by (simp add: leave_defs)
  have u: "user mallory_create = ''mallory''"
    by (simp add: mallory_create_def)
  show ?thesis
    using create_post_valid [OF a b c refl e refl refl, of leave_db "''42''"]
      create_post_valid [OF a' b c refl e refl refl, of leave_db "''42''"]
    by (simp add: i n p m1 m2 r u)
qed

text \<open>
  C4: for every located Update-POST request with valid form data whose body has the key
  \<^verbatim>\<open>save\<close>, the form is saved, then \<^verbatim>\<open>instance.update()\<close> is called, the
  transaction commits with both writes in the store, and the response redirects to the
  Update URL of the same instance.
\<close>

theorem update_post_save:
  assumes "get_model_instance env req kw d = Inr inst"
    and "get_request_params env ''app_name'' kw = Inr app"
    and "get_form_instance env kw = Inr fc"
    and "frm = new_form fc (Some (POST req)) (Some inst)"
    and "is_valid frm"
    and "POST req ''save'' \<noteq> None"
    and "saved = apply_call env (FormSave (cleaned_data frm)) inst d"
    and "updated = apply_call env InstanceUpdate (fst saved) (snd saved)"
    and "out = run (UpdateActivity_post env req kw) d"
  shows "trace (snd out) = [AtomicEnter, FormSave (cleaned_data frm), InstanceUpdate, AtomicCommit]
    \<and> db (snd out) = snd updated
    \<and> fst out = Inr (HttpResponseRedirect
         (reverse env ''update'' [app, title (fst updated), ident (fst updated)]))"
  using assms UpdateActivity_post_save [of env req kw d inst fc app]
  by (auto simp add: Let_def)

theorem update_post_save_witness:
  "trace (snd (run (UpdateActivity_post leave_env mallory_save update_kwargs) leave_db))
     = [AtomicEnter, FormSave [(''reason'', ''flu'')], InstanceUpdate, AtomicCommit]
   \<and> db (snd (run (UpdateActivity_post leave_env mallory_save update_kwargs) leave_db))
     = [\<lparr>title = ''LeaveRequest'', ident = ''1'', is_initial = True, attrs = [(''reason'', ''flu'')]\<rparr>]
   \<and> fst (run (UpdateActivity_post leave_env mallory_save update_kwargs) leave_db)
     = Inr (HttpResponseRedirect ''update/leave-request/LeaveRequest/1'')"
proof -
  have v: "is_valid (new_form reason_form (Some (POST mallory_save))
      (Some \<lparr>title = ''LeaveRequest'', ident = ''1'', is_initial = True, attrs = [(''reason'', ''holiday'')]\<rparr>))"
    by (simp add: leave_defs)
  have s: "POST mallory_save ''save'' \<noteq> None"
    by (simp add: leave_defs)
  show ?thesis
    using update_post_save [OF leave_update_located(1) leave_update_located(3)
        leave_update_located(2) refl v s refl refl refl]
    by (simp add: leave_defs)
qed

text \<open>
  C5, as stated, fails: a valid Update-POST with none of the keys \<^verbatim>\<open>save\<close>,
  \<^verbatim>\<open>finish\<close> and \<^verbatim>\<open>submit\<close> is in its scope, and there the handler raises the
  missing-key error: \<^verbatim>\<open>task.submit\<close> is not called, no response is returned and the
  saved form is rolled back.
\<close>

theorem update_post_submit_counterexample:
  "is_valid (new_form reason_form (Some (POST mallory_create))
      (Some \<lparr>title = ''LeaveRequest'', ident = ''1'', is_initial = True, attrs = [(''reason'', ''holiday'')]\<rparr>))
   \<and> POST mallory_create ''save'' = None
   \<and> POST mallory_create ''finish'' = None
   \<and> fst (run (UpdateActivity_post leave_env mallory_create update_kwargs) leave_db)
       = Inl (MultiValueDictKeyError ''submit'')
   \<and> trace (snd (run (UpdateActivity_post leave_env mallory_create update_kwargs) leave_db))
       = [AtomicEnter, FormSave [(''reason'', ''flu'')], AtomicRollback]
   \<and> db (snd (run (UpdateActivity_post leave_env mallory_create update_kwargs) leave_db)) = leave_db"
  by (simp add: UpdateActivity_post_def post_item_def monad_defs leave_defs)

text \<open>
  C5, amended: for every located Update-POST request with valid form data and no
  \<^verbatim>\<open>save\<close> key: with the key \<^verbatim>\<open>finish\<close>, \<^verbatim>\<open>instance.finish()\<close> is called;
  otherwise, when the body has a decision value under \<^verbatim>\<open>submit\<close>,
  \<^verbatim>\<open>task.submit(app_title, user, decision)\<close> is called with that value. In both these
  cases the transaction commits and the response redirects to the Workflow Detail view of
  the application.
\<close>

theorem update_post_finish_or_submit:
  assumes "get_model_instance env req kw d = Inr inst"
    and "get_request_params env ''app_name'' kw = Inr app"
    and "get_form_instance env kw = Inr fc"
    and "frm = new_form fc (Some (POST req)) (Some inst)"
    and "is_valid frm"
    and "POST req ''save'' = None"
    and "saved = apply_call env (FormSave (cleaned_data frm)) inst d"
    and "out = run (UpdateActivity_post env req kw) d"
  shows "(POST req ''finish'' \<noteq> None \<longrightarrow>
            trace (snd out) = [AtomicEnter, FormSave (cleaned_data frm), InstanceFinish, AtomicCommit]
          \<and> db (snd out) = snd (apply_call env InstanceFinish (fst saved) (snd saved))
          \<and> fst out = Inr (HttpResponseRedirect (reverse env ''workflow-detail'' [app])))
    \<and> (POST req ''finish'' = None \<and> POST req ''submit'' = Some decision \<longrightarrow>
            trace (snd out) = [AtomicEnter, FormSave (cleaned_data frm),
                               TaskSubmit app (user req) decision, AtomicCommit]
          \<and> db (snd out) = snd (apply_call env (TaskSubmit app (user req) decision) (fst saved) (snd saved))
          \<and> fst out = Inr (HttpResponseRedirect (reverse env ''workflow-detail'' [app])))"
  using assms UpdateActivity_post_finish [of env req kw d inst fc app]
    UpdateActivity_post_submit [of env req kw d inst fc app decision]
  by (auto simp add: Let_def)

theorem update_post_finish_or_submit_witness:
  "trace (snd (run (UpdateActivity_post leave_env alice_finish update_kwargs) leave_db))
     = [AtomicEnter, FormSave [(''reason'', ''flu'')], InstanceFinish, AtomicCommit]
   \<and> fst (run (UpdateActivity_post leave_env alice_finish update_kwargs) leave_db)
     = Inr (HttpResponseRedirect ''workflow-detail/leave-request'')
   \<and> trace (snd (run (UpdateActivity_post leave_env alice_submit update_kwargs) leave_db))
     = [AtomicEnter, FormSave [(''reason'', ''flu'')], TaskSubmit ''leave-request'' ''alice'' ''approve'',
        AtomicCommit]
   \<and> fst (run (UpdateActivity_post leave_env alice_submit update_kwargs) leave_db)
     = Inr (HttpResponseRedirect ''workflow-detail/leave-request'')"
proof -
  have v: "is_valid (new_form reason_form (Some (POST alice_finish))
      (Some \<lparr>title = ''LeaveRequest'', ident = ''1'', is_initial = True, attrs = [(''reason'', ''holiday'')]\<rparr>))"
    and v': "is_valid (new_form reason_form (Some (POST alice_submit))
      (Some \<lparr>title = ''LeaveRequest'', ident = ''1'', is_initial = True, attrs = [(''reason'', ''holiday'')]\<rparr>))"
    by (simp_all add: leave_defs req_defs)
  have s: "POST alice_finish ''save'' = None" and s': "POST alice_submit ''save'' = None"
    by (simp_all add: req_defs)
  show ?thesis
    using update_post_finish_or_submit [OF leave_update_located(1) leave_update_located(3)
        leave_update_located(2) refl v s refl refl, of "''approve''"]
      update_post_finish_or_submit [OF leave_update_located(1) leave_update_located(3)
        leave_update_located(2) refl v' s' refl refl, of "''approve''"]
    by (simp add: leave_defs req_defs)
qed



text \<open>
  C7: for every located Rollback-POST request, \<^verbatim>\<open>task.rollback()\<close> is called before
  the guard and before the response is built, whatever the guard answers; both happen
  inside one atomic block, which commits the rollback in either case. The response is the
  guard's denial if there is one and the redirect to the Workflow Detail view otherwise.
\<close>

theorem rollback_post_order:
  assumes "get_request_params env ''app_name'' kw = Inr app"
    and "get_model_instance env req kw d = Inr inst"
    and "rolled = apply_call env TaskRollback inst d"
    and "out = run (RollBackActivity_post env req kw) d"
  shows "trace (snd out) = [AtomicEnter, TaskRollback, Check RollBackActivity, AtomicCommit]
    \<and> db (snd out) = snd rolled
    \<and> (guard env RollBackActivity req kw (snd rolled) = None \<longrightarrow>
         fst out = Inr (HttpResponseRedirect (reverse env ''workflow-detail'' [app])))
    \<and> (\<forall>denial. guard env RollBackActivity req kw (snd rolled) = Some denial \<longrightarrow>
         fst out = Inr denial)"
  using assms RollBackActivity_post_located [of env kw app req d inst]
  by (simp add: Let_def)

theorem rollback_post_order_witness:
  "trace (snd (run (RollBackActivity_post leave_env alice_view update_kwargs) leave_db))
     = [AtomicEnter, TaskRollback, Check RollBackActivity, AtomicCommit]
   \<and> fst (run (RollBackActivity_post leave_env alice_view update_kwargs) leave_db)
     = Inr (HttpResponseRedirect ''workflow-detail/leave-request'')
   \<and> trace (snd (run (RollBackActivity_post leave_env mallory_empty update_kwargs) leave_db))
     = [AtomicEnter, TaskRollback, Check RollBackActivity, AtomicCommit]
   \<and> fst (run (RollBackActivity_post leave_env mallory_empty update_kwargs) leave_db)
     = Inr (OtherResponse ''denied'')
   \<and> db (snd (run (RollBackActivity_post leave_env mallory_empty update_kwargs) leave_db)) = []"
  using rollback_post_order [OF leave_update_located(3) leave_update_located(1) refl refl,
      of alice_view]
    rollback_post_order [OF leave_update_located(3) leave_update_located(1) refl refl,
      of mallory_empty]
  by (simp add: leave_defs alice_view_def mallory_empty_def)

text \<open>
  C8: with the locators of the spec, for every request whose routed application name is
  not registered, every handler that takes an application name ends in a not-found fault
  (UnknownWorkflowError or MissingParameterError), with the store unchanged and no
  collaborator called.
\<close>

theorem unregistered_app_not_found:
  assumes "kw ''app_name'' = Some app"
    and "reg app = None"
    and "env' = with_spec_locators reg objects_get env"
  shows "not_found_outcome d (run (WorkflowDetail_get_context_data env' kw) d)
    \<and> not_found_outcome d (run (ViewActivity_dispatch env' req kw) d)
    \<and> not_found_outcome d (run (RollBackActivity_post env' req kw) d)
    \<and> not_found_outcome d (run (DeleteActivity_dispatch env' req kw) d)
    \<and> not_found_outcome d (run (CreateActivity_get env' req kw) d)
    \<and> not_found_outcome d (run (CreateActivity_post env' req kw) d)
    \<and> not_found_outcome d (run (UpdateActivity_get env' req kw) d)
    \<and> not_found_outcome d (run (UpdateActivity_post env' req kw) d)"
proof -
  note u = unregistered_locators [where kw = kw and app = app and reg = reg, OF assms(1,2)]
  obtain e1 where e1: "spec_get_model reg kw = Inl e1" "is_not_found e1"
    using u(3) by blast
  obtain e2 where e2: "spec_get_form_instance reg kw = Inl e2" "is_not_found e2"
    using u(4) by blast
  obtain e3 where e3: "spec_get_model_instance reg objects_get req kw d = Inl e3" "is_not_found e3"
    using unregistered_instance [where kw = kw and app = app and reg = reg
        and objects_get = objects_get and req = req and d = d, OF assms(1,2)]
    by blast
  have "not_found_outcome d (run (WorkflowDetail_get_context_data env' kw) d)"
    using assms(3) u(1,2)
    by (simp add: not_found_outcome_def WorkflowDetail_get_context_data_def monad_defs
        with_spec_locators_def is_not_found_def)
  moreover have "not_found_outcome d (run (ViewActivity_dispatch env' req kw) d)"
    using assms(3) e1
    by (simp add: not_found_outcome_def ViewActivity_dispatch_def monad_defs with_spec_locators_def)
  moreover have "not_found_outcome d (run (RollBackActivity_post env' req kw) d)"
    using assms(3) u(1) e3
    by (simp add: not_found_outcome_def RollBackActivity_post_def monad_defs with_spec_locators_def)
  moreover have "not_found_outcome d (run (DeleteActivity_dispatch env' req kw) d)"
    using assms(3) e1
    by (simp add: not_found_outcome_def DeleteActivity_dispatch_def monad_defs with_spec_locators_def)
  moreover have "not_found_outcome d (run (CreateActivity_get env' req kw) d)"
    using assms(3) e2
    by (simp add: not_found_outcome_def CreateActivity_get_def monad_defs with_spec_locators_def)
  moreover have "not_found_outcome d (run (CreateActivity_post env' req kw) d)"
    using assms(3) e1
    by (simp add: not_found_outcome_def CreateActivity_post_def monad_defs with_spec_locators_def)
  moreover have "not_found_outcome d (run (UpdateActivity_get env' req kw) d)"
    using assms(3) e3
    by (simp add: not_found_outcome_def UpdateActivity_get_def monad_defs with_spec_locators_def)
  moreover have "not_found_outcome d (run (UpdateActivity_post env' req kw) d)"
    using assms(3) e3
    by (simp add: not_found_outcome_def UpdateActivity_post_def monad_defs with_spec_locators_def)
  ultimately show ?thesis
    by simp
qed

theorem unregistered_app_not_found_witness:
  "unknown_kwargs ''app_name'' = Some ''payroll''
   \<and> leave_registry ''payroll'' = None
   \<and> fst (run (WorkflowDetail_get_context_data leave_env unknown_kwargs) leave_db)
       = Inl (UnknownWorkflowError ''payroll'')
   \<and> not_found_outcome leave_db (run (WorkflowDetail_get_context_data leave_env unknown_kwargs) leave_db)
   \<and> not_found_outcome leave_db (run (ViewActivity_dispatch leave_env alice_view unknown_kwargs) leave_db)
   \<and> not_found_outcome leave_db (run (RollBackActivity_post leave_env alice_view unknown_kwargs) leave_db)
   \<and> not_found_outcome leave_db (run (DeleteActivity_dispatch leave_env alice_view unknown_kwargs) leave_db)
   \<and> not_found_outcome leave_db (run (CreateActivity_get leave_env alice_view unknown_kwargs) leave_db)
   \<and> not_found_outcome leave_db (run (CreateActivity_post leave_env alice_view unknown_kwargs) leave_db)
   \<and> not_found_outcome leave_db (run (UpdateActivity_get leave_env alice_view unknown_kwargs) leave_db)
   \<and> not_found_outcome leave_db (run (UpdateActivity_post leave_env alice_view unknown_kwargs) leave_db)"
proof -
  have a: "unknown_kwargs ''app_name'' = Some ''payroll''"
    by (simp add: unknown_kwargs_def)
  have b: "leave_registry ''payroll'' = None"
    by (simp add: leave_registry_def)
  have c: "fst (run (WorkflowDetail_get_context_data leave_env unknown_kwargs) leave_db)
       = Inl (UnknownWorkflowError ''payroll'')"
    by (simp add: WorkflowDetail_get_context_data_def monad_defs leave_env_def
        with_spec_locators_def spec_get_request_params_def spec_flow_config_def
        leave_registry_def unknown_kwargs_def)
  show ?thesis
    using a b c unregistered_app_not_found [where kw = unknown_kwargs and app = "''payroll''"
        and reg = leave_registry and d = leave_db and req = alice_view, OF a b leave_env_def]
    by simp
qed

text \<open>
  C9: for every located Update-POST request with valid form data whose body has both the
  keys \<^verbatim>\<open>save\<close> and \<^verbatim>\<open>finish\<close>, the save branch is taken: after the form is
  saved only \<^verbatim>\<open>instance.update()\<close> is called, never \<^verbatim>\<open>instance.finish()\<close> or
  \<^verbatim>\<open>task.submit\<close>, and the response redirects to the Update URL of the same
  instance.
\<close>

theorem update_post_save_precedence:
  assumes "get_model_instance env req kw d = Inr inst"
    and "get_request_params env ''app_name'' kw = Inr app"
    and "get_form_instance env kw = Inr fc"
    and "frm = new_form fc (Some (POST req)) (Some inst)"
    and "is_valid frm"
    and "POST req ''save'' \<noteq> None \<and> POST req ''finish'' \<noteq> None"
    and "saved = apply_call env (FormSave (cleaned_data frm)) inst d"
    and "updated = apply_call env InstanceUpdate (fst saved) (snd saved)"
    and "out = run (UpdateActivity_post env req kw) d"
  shows "trace (snd out) = [AtomicEnter, FormSave (cleaned_data frm), InstanceUpdate, AtomicCommit]
    \<and> InstanceFinish \<notin> set (trace (snd out))
    \<and> (\<forall>a u v. TaskSubmit a u v \<notin> set (trace (snd out)))
    \<and> fst out = Inr (HttpResponseRedirect
         (reverse env ''update'' [app, title (fst updated), ident (fst updated)]))"
  using assms UpdateActivity_post_save [of env req kw d inst fc app]
  by (auto simp add: Let_def)

theorem update_post_save_precedence_witness:
  "trace (snd (run (UpdateActivity_post leave_env mallory_both update_kwargs) leave_db))
     = [AtomicEnter, FormSave [(''reason'', ''flu'')], InstanceUpdate, AtomicCommit]
   \<and> InstanceFinish \<notin> set (trace (snd (run (UpdateActivity_post leave_env mallory_both update_kwargs) leave_db)))
   \<and> (\<forall>a u v. TaskSubmit a u v
        \<notin> set (trace (snd (run (UpdateActivity_post leave_env mallory_both update_kwargs) leave_db))))
   \<and> fst (run (UpdateActivity_post leave_env mallory_both update_kwargs) leave_db)
     = Inr (HttpResponseRedirect ''update/leave-request/LeaveRequest/1'')"
proof -
  have v: "is_valid (new_form reason_form (Some (POST mallory_both))
      (Some \<lparr>title = ''LeaveRequest'', ident = ''1'', is_initial = True, attrs = [(''reason'', ''holiday'')]\<rparr>))"
    by (simp add: leave_defs req_defs)
  have s: "POST mallory_both ''save'' \<noteq> None \<and> POST mallory_both ''finish'' \<noteq> None"
    by (simp add: req_defs)
  show ?thesis
    using update_post_save_precedence [OF leave_update_located(1) leave_update_located(3)
        leave_update_located(2) refl v s refl refl refl]
    by (simp add: leave_defs req_defs)
qed

text \<open>
  C10: for every located Update-POST request with valid form data whose body has none of
  the keys \<^verbatim>\<open>save\<close>, \<^verbatim>\<open>finish\<close> and \<^verbatim>\<open>submit\<close>, the handler raises the
  missing-key error of \<^verbatim>\<open>request.POST['submit']\<close> and returns no response; the
  atomic block is rolled back, so the saved form is not in the store.
\<close>

theorem update_post_missing_decision:
  assumes "get_model_instance env req kw d = Inr inst"
    and "get_request_params env ''app_name'' kw = Inr app"
    and "get_form_instance env kw = Inr fc"
    and "frm = new_form fc (Some (POST req)) (Some inst)"
    and "is_valid frm"
    and "POST req ''save'' = None \<and> POST req ''finish'' = None \<and> POST req ''submit'' = None"
    and "out = run (UpdateActivity_post env req kw) d"
  shows "fst out = Inl (MultiValueDictKeyError ''submit'')
    \<and> trace (snd out) = [AtomicEnter, FormSave (cleaned_data frm), AtomicRollback]
    \<and> db (snd out) = d"
  using assms UpdateActivity_post_no_control [of env req kw d inst fc app]
  by simp

theorem update_post_missing_decision_witness:
  "fst (run (UpdateActivity_post leave_env alice_plain update_kwargs) leave_db)
     = Inl (MultiValueDictKeyError ''submit'')
   \<and> trace (snd (run (UpdateActivity_post leave_env alice_plain update_kwargs) leave_db))
     = [AtomicEnter, FormSave [(''reason'', ''flu'')], AtomicRollback]
   \<and> db (snd (run (UpdateActivity_post leave_env alice_plain update_kwargs) leave_db)) = leave_db"
proof -
  have v: "is_valid (new_form reason_form (Some (POST alice_plain))
      (Some \<lparr>title = ''LeaveRequest'', ident = ''1'', is_initial = True, attrs = [(''reason'', ''holiday'')]\<rparr>))"
    by (simp add: leave_defs req_defs)
  have s: "POST alice_plain ''save'' = None \<and> POST alice_plain ''finish'' = None
      \<and> POST alice_plain ''submit'' = None"
    by (simp add: req_defs)
  show ?thesis
    using update_post_missing_decision [OF leave_update_located(1) leave_update_located(3)
        leave_update_located(2) refl v s refl]
    by (simp add: leave_defs req_defs)
qed

end
